theory Spec2Isabelle
  imports Main "HOL-Library.Sublist" "HOL-Library.AList"
begin

section \<open>The blog publisher: a shallow embedding of \<^verbatim>\<open>blog_publisher.py\<close>\<close>

text \<open>
  The program is one HTTP handler, \<^verbatim>\<open>upload_blog\<close>, that threads a text through string
  transformations and calls to three collaborators: a language model, a tokenizer and the
  REST interface of a content-management system (CMS).

  A Python \<^verbatim>\<open>str\<close> is modelled as a \<^typ>\<open>string\<close>, each \<^typ>\<open>char\<close> standing for one code
  point below 256. The string methods the program uses (\<^verbatim>\<open>replace\<close>, \<^verbatim>\<open>strip\<close>,
  \<^verbatim>\<open>split\<close>, \<^verbatim>\<open>join\<close>) are written out as recursive functions.
\<close>

subsection \<open>Python's string methods\<close>

text \<open>
  \<^verbatim>\<open>str.isspace\<close> on one character. Below 256 the whitespace characters are
  tab, line feed, vertical tab, form feed, carriage return, the four separators
  \<^verbatim>\<open>\x1c\<close> to \<^verbatim>\<open>\x1f\<close>, the space, \<^verbatim>\<open>\x85\<close> and \<^verbatim>\<open>\xa0\<close>.
\<close>

definition whitespace :: string where
  "whitespace =
     [CHR 0x09, CHR 0x0A, CHR 0x0B, CHR 0x0C, CHR 0x0D, CHR 0x1C, CHR 0x1D, CHR 0x1E, CHR 0x1F,
      CHR '' '', CHR 0x85, CHR 0xA0]"

definition py_isspace :: "char \<Rightarrow> bool" where
  "py_isspace c = (c \<in> set whitespace)"

text \<open>\<^verbatim>\<open>s.strip()\<close>: drop the whitespace at both ends.\<close>

definition py_strip :: "string \<Rightarrow> string" where
  "py_strip s = rev (dropWhile py_isspace (rev (dropWhile py_isspace s)))"

text \<open>
  \<^verbatim>\<open>s.replace(old, new)\<close>: the occurrences of \<^verbatim>\<open>old\<close> are found from the left and do
  not overlap; the text produced by a replacement is not searched again. For an empty
  \<^verbatim>\<open>old\<close> Python puts \<^verbatim>\<open>new\<close> in front of every character and at the end.
\<close>

function replace_nonempty :: "string \<Rightarrow> string \<Rightarrow> string \<Rightarrow> string" where
  "replace_nonempty old new [] = []"
| "replace_nonempty old new (c # cs) =
     (if old \<noteq> [] \<and> prefix old (c # cs)
      then new @ replace_nonempty old new (drop (length old) (c # cs))
      else c # replace_nonempty old new cs)"
  by pat_completeness auto
termination
  by (relation "measure (\<lambda>(old, new, s). length s)") auto

definition py_replace :: "string \<Rightarrow> string \<Rightarrow> string \<Rightarrow> string" where
  "py_replace old new s =
     (if old = [] then new @ concat (map (\<lambda>c. c # new) s) else replace_nonempty old new s)"

text \<open>\<^verbatim>\<open>old in s\<close> for two strings is \<^const>\<open>sublist\<close>: \<^verbatim>\<open>old\<close> occurs in \<^verbatim>\<open>s\<close> as a block.\<close>

text \<open>
  \<^verbatim>\<open>s.split()\<close> with no argument: the maximal runs of characters that are not
  whitespace, in order; no empty word is produced. The first argument of the loop is the
  word being read.
\<close>

fun split_from :: "string \<Rightarrow> string \<Rightarrow> string list" where
  "split_from w [] = (if w = [] then [] else [w])"
| "split_from w (c # cs) =
     (if py_isspace c then (if w = [] then split_from [] cs else w # split_from [] cs)
      else split_from (w @ [c]) cs)"

definition py_split :: "string \<Rightarrow> string list" where
  "py_split s = split_from [] s"

text \<open>\<^verbatim>\<open>sep.join(words)\<close>.\<close>

fun py_join :: "string \<Rightarrow> string list \<Rightarrow> string" where
  "py_join sep [] = []"
| "py_join sep [w] = w"
| "py_join sep (w # v # ws) = w @ sep @ py_join sep (v # ws)"

subsection \<open>The sanitizer\<close>

text \<open>
  \<^verbatim>\<open>clean_content\<close> removes the two phrases of its denylist, the first phrase everywhere
  and then the second, each in one pass of \<^verbatim>\<open>replace\<close>, and strips the result.
\<close>

definition unwanted_phrases :: "string list" where
  "unwanted_phrases =
     [''Here is the formatted blog post:'',
      ''Let me know if you need any further assistance!'']"

definition clean_content :: "string \<Rightarrow> string" where
  "clean_content content = py_strip (fold (\<lambda>phrase c. py_replace phrase [] c) unwanted_phrases content)"

text \<open>
  A text is made of boilerplate only when it is a concatenation of pieces, each one a
  phrase of the denylist or a run of whitespace.
\<close>

definition boilerplate_piece :: "string \<Rightarrow> bool" where
  "boilerplate_piece p = (p \<in> set unwanted_phrases \<or> list_all py_isspace p)"

subsection \<open>The collaborators\<close>

text \<open>
  The JSON values the CMS answers with, and Python's truth value of a decoded one
  (\<^verbatim>\<open>None\<close>, \<^verbatim>\<open>False\<close>, zero and the empty string, list and dict are false). Numbers
  are integers here.
\<close>

datatype json =
    JNull
  | JBool bool
  | JNum int
  | JStr string
  | JArr "json list"
  | JObj "(string \<times> json) list"

fun truthy :: "json \<Rightarrow> bool" where
  "truthy JNull = False"
| "truthy (JBool b) = b"
| "truthy (JNum n) = (n \<noteq> 0)"
| "truthy (JStr s) = (s \<noteq> [])"
| "truthy (JArr xs) = (xs \<noteq> [])"
| "truthy (JObj kvs) = (kvs \<noteq> [])"

text \<open>The body of the create-page request (\<^verbatim>\<open>post_data\<close> in \<^verbatim>\<open>publish_to_wordpress\<close>).\<close>

record post_data =
  pd_title :: string
  pd_content :: string
  pd_status :: string
  pd_metadesc :: string
  pd_tags :: "int list"

text \<open>
  Everything outside the file is a parameter of the model:
  \<^item> \<open>word_tokenize\<close> is \<^verbatim>\<open>nltk.word_tokenize\<close>;
  \<^item> \<open>re_sub\<close> is \<^verbatim>\<open>re.sub(pattern, repl, string, flags=re.IGNORECASE)\<close> as a function of
    the pattern, the replacement and the string: the text it returns, or \<open>None\<close> when it
    raises \<^verbatim>\<open>re.error\<close>. The link enricher asks it only for the patterns and
    replacements that the model below does not write out;
  \<^item> \<open>ollama_chat\<close> maps the prompt to \<^verbatim>\<open>response["message"]["content"]\<close>, or to
    \<open>None\<close> when the response has no \<^verbatim>\<open>"message"\<close>;
  \<^item> \<open>wp_posts\<close> is the answer to \<^verbatim>\<open>GET /wp-json/wp/v2/posts?per_page=100\<close>: the status
    code and, for each post of the decoded body in order, its rendered title and its link;
  \<^item> \<open>wp_tags\<close> maps a search term to the answer to \<^verbatim>\<open>GET /wp-json/wp/v2/tags?search=\<close>:
    the status code and the \<^verbatim>\<open>id\<close> of each tag of the decoded body in order;
  \<^item> \<open>wp_pages\<close> maps the request body to the answer to \<^verbatim>\<open>POST /wp-json/wp/v2/pages\<close>:
    the status code and the decoded body.

  Each collaborator answers as a function of the request. The calls a function makes are
  returned beside its value, in the order they are made.
\<close>

record services =
  word_tokenize :: "string \<Rightarrow> string list"
  re_sub :: "string \<Rightarrow> string \<Rightarrow> string \<Rightarrow> string option"
  ollama_chat :: "string \<Rightarrow> string option"
  wp_posts :: "nat \<times> (string \<times> string) list"
  wp_tags :: "string \<Rightarrow> nat \<times> int list"
  wp_pages :: "post_data \<Rightarrow> nat \<times> json"

datatype call =
    Ollama_chat string
  | Get_posts
  | Get_tags string
  | Post_page post_data

subsection \<open>The rewrite client and the normalizer\<close>

definition llama3_prompt :: "string \<Rightarrow> string" where
  "llama3_prompt text =
     ''\<newline>    Format the following blog post:'' @
     ''\<newline>    - Add appropriate <p> tags.'' @
     ''\<newline>    - Detect and format list items.'' @
     ''\<newline>    - Do not create your own title.'' @
     ''\<newline>'' @
     ''\<newline>    Blog Content:'' @
     ''\<newline>    '' @ text @
     ''\<newline>    ''"

definition process_with_llama3 :: "services \<Rightarrow> string \<Rightarrow> string option \<times> call list" where
  "process_with_llama3 env text =
     (let prompt = llama3_prompt text;
          response = ollama_chat env prompt
      in (case response of
            Some formatted_content \<Rightarrow> Some (py_replace ''</p>'' ''</p>\<newline>'' formatted_content)
          | None \<Rightarrow> None,
          [Ollama_chat prompt]))"

definition spell_check :: "services \<Rightarrow> string \<Rightarrow> string" where
  "spell_check env text = py_join '' '' (word_tokenize env text)"

subsection \<open>The link enricher\<close>

text \<open>
  \<^verbatim>\<open>get_internal_links\<close> builds a dict from the posts. A Python dict keeps its keys in
  the order of their first insertion and a later value replaces an earlier one in place,
  which is \<^const>\<open>AList.update\<close> on an association list.
\<close>

definition get_internal_links :: "services \<Rightarrow> (string \<times> string) list \<times> call list" where
  "get_internal_links env =
     (let (status_code, posts) = wp_posts env
      in (if status_code = 200 then fold (\<lambda>(title, link) links. AList.update title link links) posts []
          else [],
          [Get_posts]))"

text \<open>
  \<^verbatim>\<open>insert_internal_links\<close> calls
  \<^verbatim>\<open>re.sub(rf"\b{title}\b", f'<a href="{url}">{title}</a>', content, flags=re.IGNORECASE)\<close>
  for each entry of the dict: the title is put into the pattern as it is, so it is read
  as a regular expression. The substitution is written out below for the titles made of
  characters that stand for themselves and of the dot, which matches any character but
  the line feed, with a replacement that holds no backslash; there \<^verbatim>\<open>re.sub\<close> always
  returns. For a title with another special character
  (\<^verbatim>\<open>\ ^ $ * + ? { } [ ] ( ) |\<close>) and for a replacement with a backslash the answer is
  that of the library, the parameter \<open>re_sub\<close>: a text, or \<open>None\<close> when it raises.
\<close>

text \<open>The class \<^verbatim>\<open>\w\<close> of a \<^verbatim>\<open>str\<close> pattern, and \<^verbatim>\<open>str.lower\<close>, below 256.\<close>

definition re_word :: "char \<Rightarrow> bool" where
  "re_word c =
     (let n = (of_char c :: nat)
      in (48 \<le> n \<and> n \<le> 57) \<or> (65 \<le> n \<and> n \<le> 90) \<or> n = 95 \<or> (97 \<le> n \<and> n \<le> 122) \<or>
         n \<in> {170, 178, 179, 181, 185, 186, 188, 189, 190} \<or>
         (192 \<le> n \<and> n \<noteq> 215 \<and> n \<noteq> 247))"

definition py_lower :: "char \<Rightarrow> char" where
  "py_lower c =
     (let n = (of_char c :: nat)
      in if (65 \<le> n \<and> n \<le> 90) \<or> (192 \<le> n \<and> n \<le> 222 \<and> n \<noteq> 215)
         then char_of (n + 32) else c)"

datatype atom = Literal char | Any_char

definition re_special :: string where
  "re_special =
     [CHR 0x5C, CHR ''.'', CHR ''^'', CHR ''$'', CHR ''*'', CHR ''+'', CHR ''?'',
      CHR ''{'', CHR ''}'', CHR ''['', CHR '']'', CHR ''('', CHR '')'', CHR ''|'']"

fun re_parse :: "string \<Rightarrow> atom list option" where
  "re_parse [] = Some []"
| "re_parse (c # cs) =
     (if c = CHR ''.'' then map_option ((#) Any_char) (re_parse cs)
      else if c \<in> set re_special then None
      else map_option ((#) (Literal c)) (re_parse cs))"

text \<open>
  \<^verbatim>\<open>\b\<close> holds between the previous character and the rest of the text when exactly
  one side is a word character; the ends of the text count as no word character.
\<close>

definition word_boundary :: "char option \<Rightarrow> string \<Rightarrow> bool" where
  "word_boundary prev s =
     ((case prev of None \<Rightarrow> False | Some p \<Rightarrow> re_word p) \<noteq>
      (case s of [] \<Rightarrow> False | c # _ \<Rightarrow> re_word c))"

text \<open>
  The atoms of the title, then the closing \<^verbatim>\<open>\b\<close>. Under \<^verbatim>\<open>IGNORECASE\<close> a literal
  matches a character with the same lower-case form.
\<close>

fun match_atoms :: "atom list \<Rightarrow> char option \<Rightarrow> string \<Rightarrow> bool" where
  "match_atoms [] prev s = word_boundary prev s"
| "match_atoms (a # as) prev [] = False"
| "match_atoms (Literal l # as) prev (c # cs) =
     (py_lower c = py_lower l \<and> match_atoms as (Some c) cs)"
| "match_atoms (Any_char # as) prev (c # cs) =
     (c \<noteq> CHR ''\<newline>'' \<and> match_atoms as (Some c) cs)"

definition match_here :: "atom list \<Rightarrow> char option \<Rightarrow> string \<Rightarrow> bool" where
  "match_here as prev s = (word_boundary prev s \<and> match_atoms as prev s)"

text \<open>
  The scan of \<^verbatim>\<open>re.sub\<close>: at each position from the left, a match is replaced and the
  scan goes on behind it; otherwise the character is copied. The counter is the number of
  characters of the current match still to be passed over. A match of the pattern has
  as many characters as the title has atoms; for the empty title every match is empty,
  and the scan copies the next character after replacing it.
\<close>

fun sub_scan :: "atom list \<Rightarrow> string \<Rightarrow> nat \<Rightarrow> char option \<Rightarrow> string \<Rightarrow> string" where
  "sub_scan as repl (Suc k) prev [] = []"
| "sub_scan as repl (Suc k) prev (c # cs) = sub_scan as repl k (Some c) cs"
| "sub_scan as repl 0 prev [] = (if match_here as prev [] then repl else [])"
| "sub_scan as repl 0 prev (c # cs) =
     (if match_here as prev (c # cs)
      then repl @ (if as = [] then c # sub_scan as repl 0 (Some c) cs
                   else sub_scan as repl (length as - 1) (Some c) cs)
      else c # sub_scan as repl 0 (Some c) cs)"

text \<open>The pattern \<^verbatim>\<open>rf"\b{title}\b"\<close>.\<close>

definition title_pattern :: "string \<Rightarrow> string" where
  "title_pattern title = [CHR 0x5C, CHR ''b''] @ title @ [CHR 0x5C, CHR ''b'']"

definition re_sub_title :: "services \<Rightarrow> string \<Rightarrow> string \<Rightarrow> string \<Rightarrow> string option" where
  "re_sub_title env title repl content =
     (case re_parse title of
        None \<Rightarrow> re_sub env (title_pattern title) repl content
      | Some as \<Rightarrow>
          if CHR 0x5C \<in> set repl then re_sub env (title_pattern title) repl content
          else Some (sub_scan as repl 0 None content))"

definition anchor :: "string \<Rightarrow> string \<Rightarrow> string" where
  "anchor url title = ''<a href='' @ [CHR 0x22] @ url @ [CHR 0x22] @ ''>'' @ title @ ''</a>''"

text \<open>
  The loop over the entries of the dict, in their order. The result is \<open>None\<close> when
  \<^verbatim>\<open>re.sub\<close> raises for an entry: the exception leaves the loop and the function.
\<close>

fun insert_internal_links ::
  "services \<Rightarrow> string \<Rightarrow> (string \<times> string) list \<Rightarrow> string option" where
  "insert_internal_links env content [] = Some content"
| "insert_internal_links env content ((title, url) # links) =
     (case re_sub_title env title (anchor url title) content of
        None \<Rightarrow> None
      | Some content' \<Rightarrow> insert_internal_links env content' links)"

subsection \<open>The tag resolver and the publisher\<close>

text \<open>The loop of \<^verbatim>\<open>fetch_tag_ids\<close>, with the list \<^verbatim>\<open>tag_ids\<close> and the calls made so far.\<close>

fun fetch_tag_ids_loop ::
  "services \<Rightarrow> string list \<Rightarrow> int list \<times> call list \<Rightarrow> int list \<times> call list" where
  "fetch_tag_ids_loop env [] (tag_ids, calls) = (tag_ids, calls)"
| "fetch_tag_ids_loop env (tag # tags) (tag_ids, calls) =
     (let (status_code, tags_data) = wp_tags env tag;
          calls' = calls @ [Get_tags tag]
      in if status_code = 200
         then (case tags_data of
                 [] \<Rightarrow> fetch_tag_ids_loop env tags (tag_ids, calls')
               | first # _ \<Rightarrow> fetch_tag_ids_loop env tags (tag_ids @ [first], calls'))
         else fetch_tag_ids_loop env tags (tag_ids, calls'))"

definition fetch_tag_ids :: "services \<Rightarrow> string list \<Rightarrow> int list \<times> call list" where
  "fetch_tag_ids env tags = fetch_tag_ids_loop env tags ([], [])"

definition publish_to_wordpress ::
  "services \<Rightarrow> string \<Rightarrow> string \<Rightarrow> string \<Rightarrow> int list \<Rightarrow> json option \<times> call list" where
  "publish_to_wordpress env title content meta_description tag_ids =
     (let page = \<lparr>pd_title = title, pd_content = content, pd_status = ''publish'',
                  pd_metadesc = meta_description, pd_tags = tag_ids\<rparr>;
          (status_code, body) = wp_pages env page
      in (if status_code = 201 then Some body else None, [Post_page page]))"

subsection \<open>The endpoint\<close>

text \<open>
  The handler either returns a dict, which the framework sends with status 200, or raises
  \<^verbatim>\<open>HTTPException(status_code, detail)\<close>. The result of the model is \<open>None\<close> exactly
  where \<^verbatim>\<open>re.sub\<close> raises \<^verbatim>\<open>re.error\<close> in the link enricher: the handler does not catch
  the exception and goes no further.
\<close>

datatype outcome = Return json | HTTPException nat string

fun status_of :: "outcome \<Rightarrow> nat" where
  "status_of (Return body) = 200"
| "status_of (HTTPException status_code detail) = status_code"

definition upload_blog :: "services \<Rightarrow> string \<Rightarrow> string \<Rightarrow> (outcome \<times> call list) option" where
  "upload_blog env title blog_content =
     (if blog_content = [] then Some (HTTPException 400 ''No content provided'', [])
      else
        let cleaned_content = clean_content blog_content;
            (formatted, calls1) = process_with_llama3 env cleaned_content
        in case formatted of
             None \<Rightarrow> Some (HTTPException 500 ''LLaMA 3 processing failed'', calls1)
           | Some formatted_content \<Rightarrow>
               if formatted_content = []
               then Some (HTTPException 500 ''LLaMA 3 processing failed'', calls1)
               else
                 let checked_content = spell_check env formatted_content;
                     (internal_links, calls2) = get_internal_links env
                 in case insert_internal_links env formatted_content internal_links of
                      None \<Rightarrow> None
                    | Some final_content \<Rightarrow>
                        let tags = py_split title;
                            (tag_ids, calls3) = fetch_tag_ids env tags;
                            meta_description =
                              ''Learn more about '' @ title @ '' in this detailed blog post.'';
                            (result, calls4) =
                              publish_to_wordpress env title final_content meta_description tag_ids;
                            calls = calls1 @ calls2 @ calls3 @ calls4
                        in case result of
                             None \<Rightarrow> Some (HTTPException 500 ''Failed to publish post'', calls)
                           | Some post \<Rightarrow>
                               if truthy post
                               then Some (Return (JObj [(''message'', JStr ''Blog post published successfully''),
                                                        (''post'', post)]), calls)
                               else Some (HTTPException 500 ''Failed to publish post'', calls))"

subsection \<open>Concrete collaborators\<close>

text \<open>
  Collaborators for the examples below. The language model answers every prompt with one
  paragraph, the CMS has no post and no tag and accepts every page. The tokenizer splits
  at whitespace: on this paragraph every tokenizer whose tokens hold no whitespace joins
  to a text with single spaces and no line feed. The regular-expression library gives
  the string back, as \<^verbatim>\<open>re.sub\<close> does where its pattern matches nowhere; the examples
  ask it only for the pattern of the title \<^verbatim>\<open>What is AI?\<close> on texts that hold neither
  \<^verbatim>\<open>What is A\<close> nor \<^verbatim>\<open>What is AI\<close>.
\<close>

definition plain_services :: services where
  "plain_services =
     \<lparr>word_tokenize = py_split,
      re_sub = (\<lambda>pattern repl content. Some content),
      ollama_chat = (\<lambda>prompt. Some ''<p>Hello  world</p>''),
      wp_posts = (200, []),
      wp_tags = (\<lambda>tag. (200, [])),
      wp_pages = (\<lambda>page. (201, JObj [(''id'', JNum 7)]))\<rparr>"

text \<open>A language model whose response has no message, and one whose message is empty.\<close>

definition silent_llm_services :: services where
  "silent_llm_services = plain_services\<lparr>ollama_chat := (\<lambda>prompt. None)\<rparr>"

definition empty_llm_services :: services where
  "empty_llm_services = plain_services\<lparr>ollama_chat := (\<lambda>prompt. Some [])\<rparr>"

text \<open>A CMS that creates the page and answers 201 with an empty object.\<close>

definition empty_body_services :: services where
  "empty_body_services = plain_services\<lparr>wp_pages := (\<lambda>page. (201, JObj []))\<rparr>"

text \<open>A CMS that knows the tag \<^verbatim>\<open>Go\<close> under the identifier 5 and no other tag.\<close>

definition go_services :: services where
  "go_services =
     plain_services\<lparr>wp_tags := (\<lambda>tag. if tag = ''Go'' then (200, [5, 9]) else (200, []))\<rparr>"

text \<open>
  A CMS whose posts read fails, and whose tag search fails for every term but \<^verbatim>\<open>Go\<close>;
  the failed answers carry a body all the same.
\<close>

definition failing_reads_services :: services where
  "failing_reads_services =
     plain_services\<lparr>wp_posts := (500, [(''Hello'', ''https://x/hello'')]),
                     wp_tags := (\<lambda>tag. if tag = ''Go'' then (200, [5]) else (503, [8]))\<rparr>"

text \<open>
  A CMS with two posts, the title of the first with a special character, and the same CMS
  with the failing tag search, with the empty answer to the create-page call, and
  refusing the page.
\<close>

definition indexed_services :: services where
  "indexed_services =
     plain_services\<lparr>wp_posts := (200, [(''What is AI?'', ''https://x/ai''),
                                         (''Hello'', ''https://x/hello'')])\<rparr>"

definition failing_tags_services :: services where
  "failing_tags_services =
     indexed_services\<lparr>wp_tags := (\<lambda>tag. if tag = ''Go'' then (200, [5]) else (503, [8]))\<rparr>"

definition indexed_empty_body_services :: services where
  "indexed_empty_body_services = indexed_services\<lparr>wp_pages := (\<lambda>page. (201, JObj []))\<rparr>"

definition indexed_rejecting_services :: services where
  "indexed_rejecting_services =
     indexed_services\<lparr>wp_pages := (\<lambda>page. (403, JObj [(''code'', JStr ''rest_cannot_create'')]))\<rparr>"

section \<open>The sanitizer\<close>

subsection \<open>Facts about \<open>replace\<close> and \<open>strip\<close>\<close>

lemma replace_nonempty_absent:
  "\<not> sublist old s \<Longrightarrow> replace_nonempty old new s = s"
proof (induction s)
  case Nil
  show ?case by simp
next
  case (Cons c cs)
  from Cons.prems have np: "\<not> prefix old (c # cs)" and ns: "\<not> sublist old cs"
    by (simp_all add: sublist_Cons_right)
  from ns have "replace_nonempty old new cs = cs" by (rule Cons.IH)
  with np show ?case by simp
qed

lemma length_replace_nonempty_le: "length (replace_nonempty old [] s) \<le> length s"
proof (induction old "[] :: string" s rule: replace_nonempty.induct)
  case (1 old)
  show ?case by simp
next
  case (2 old c cs)
  show ?case
  proof (cases "old \<noteq> [] \<and> prefix old (c # cs)")
    case True
    with 2(1)
    have "length (replace_nonempty old [] (drop (length old) (c # cs)))
            \<le> length (drop (length old) (c # cs))"
      by simp
    also have "\<dots> \<le> length (c # cs)" by simp
    finally show ?thesis using True by simp
  next
    case False
    with 2(2) show ?thesis by auto
  qed
qed

lemma length_replace_nonempty_less:
  "old \<noteq> [] \<Longrightarrow> sublist old s \<Longrightarrow> length (replace_nonempty old [] s) < length s"
proof (induction s)
  case Nil
  then show ?case by simp
next
  case (Cons c cs)
  show ?case
  proof (cases "prefix old (c # cs)")
    case True
    have "length (replace_nonempty old [] (drop (length old) (c # cs)))
            \<le> length (drop (length old) (c # cs))"
      by (rule length_replace_nonempty_le)
    also have "\<dots> < length (c # cs)" using Cons.prems(1) by simp
    finally show ?thesis using True Cons.prems(1) by simp
  next
    case False
    with Cons.prems have "sublist old cs" by (simp add: sublist_Cons_right)
    with Cons.IH Cons.prems(1) have "length (replace_nonempty old [] cs) < length cs" by simp
    with False show ?thesis by simp
  qed
qed

lemma replace_nonempty_skip:
  "old \<noteq> [] \<Longrightarrow> hd old \<notin> set xs \<Longrightarrow>
   replace_nonempty old new (xs @ rest) = xs @ replace_nonempty old new rest"
proof (induction xs)
  case Nil
  show ?case by simp
next
  case (Cons x xs)
  from Cons.prems have "\<not> prefix old (x # xs @ rest)"
    by (cases old) auto
  moreover from Cons
  have "replace_nonempty old new (xs @ rest) = xs @ replace_nonempty old new rest"
    by simp
  ultimately show ?case by simp
qed

lemma replace_nonempty_hit:
  "old \<noteq> [] \<Longrightarrow> replace_nonempty old new (old @ rest) = new @ replace_nonempty old new rest"
  by (cases old) simp_all

lemma replace_nonempty_concat:
  "old \<noteq> [] \<Longrightarrow> list_all (\<lambda>p. p = old \<or> hd old \<notin> set p) ps \<Longrightarrow>
   replace_nonempty old new (concat ps) = concat (map (\<lambda>p. if p = old then new else p) ps)"
proof (induction ps)
  case Nil
  show ?case by simp
next
  case (Cons p ps)
  then have IH:
    "replace_nonempty old new (concat ps) = concat (map (\<lambda>p. if p = old then new else p) ps)"
    by simp
  show ?case
  proof (cases "p = old")
    case True
    with Cons.prems(1) IH show ?thesis by (simp add: replace_nonempty_hit)
  next
    case False
    with Cons.prems have "hd old \<notin> set p" by simp
    with Cons.prems(1) False IH show ?thesis by (simp add: replace_nonempty_skip)
  qed
qed

lemma length_py_strip_le: "length (py_strip s) \<le> length s"
proof -
  have "length (py_strip s) \<le> length (dropWhile py_isspace s)"
    unfolding py_strip_def by (metis length_dropWhile_le length_rev)
  also have "\<dots> \<le> length s" by (rule length_dropWhile_le)
  finally show ?thesis .
qed

lemma py_strip_idem: "py_strip (py_strip s) = py_strip s"
proof -
  define t where "t = dropWhile py_isspace s"
  define u where "u = dropWhile py_isspace (rev t)"
  have hd_t: "t \<noteq> [] \<Longrightarrow> \<not> py_isspace (hd t)"
    unfolding t_def by (rule hd_dropWhile)
  have strip: "py_strip s = rev u" by (simp add: py_strip_def t_def u_def)
  have "dropWhile py_isspace (rev u) = rev u"
  proof (cases "u = []")
    case True
    then show ?thesis by simp
  next
    case False
    then have "rev t \<noteq> []" by (auto simp: u_def)
    then have tne: "t \<noteq> []" by simp
    have "rev t = takeWhile py_isspace (rev t) @ u"
      by (simp add: u_def)
    then have "last (rev t) = last (takeWhile py_isspace (rev t) @ u)"
      by simp
    then have "last u = last (rev t)"
      using False by simp
    also have "\<dots> = hd t" using tne by (simp add: last_rev)
    finally have "\<not> py_isspace (last u)" using hd_t tne by simp
    then have "\<not> py_isspace (hd (rev u))" using False by (simp add: hd_rev)
    then show ?thesis using False by (cases "rev u") simp_all
  qed
  moreover have "dropWhile py_isspace u = u"
    by (simp add: u_def)
  ultimately have "py_strip (rev u) = rev u"
    unfolding py_strip_def by simp
  then show ?thesis by (simp only: strip)
qed

lemma py_strip_all_space: "list_all py_isspace s \<Longrightarrow> py_strip s = []"
proof -
  assume "list_all py_isspace s"
  then have "dropWhile py_isspace s = []"
    by (induction s) simp_all
  then show ?thesis unfolding py_strip_def by (simp only: rev.simps dropWhile.simps)
qed

lemma clean_content_unfold:
  "clean_content s =
     py_strip (replace_nonempty ''Let me know if you need any further assistance!'' []
       (replace_nonempty ''Here is the formatted blog post:'' [] s))"
  by (simp add: clean_content_def unwanted_phrases_def py_replace_def)

lemma not_space_H: "\<not> py_isspace (CHR ''H'')"
  by (simp add: py_isspace_def whitespace_def)

lemma not_space_L: "\<not> py_isspace (CHR ''L'')"
  by (simp add: py_isspace_def whitespace_def)

subsection \<open>Idempotence\<close>

text \<open>
  Claim C4, as stated: for every input, applying \<open>clean_content\<close> twice gives the result
  of applying it once. It fails: \<open>replace\<close> makes one pass, so removing a phrase that
  stands inside another occurrence splices that occurrence together, and only a second
  application removes it.
\<close>

theorem clean_content_twice_differs:
  "clean_content (clean_content ''Here is the formHere is the formatted blog post:atted blog post:'')
     \<noteq> clean_content ''Here is the formHere is the formatted blog post:atted blog post:''"
  by (simp add: clean_content_unfold py_strip_def py_isspace_def whitespace_def)

text \<open>
  Claim C4, amended: applying \<open>clean_content\<close> twice gives the result of applying it once
  exactly when the result of the first application holds no phrase of the denylist.
\<close>

theorem clean_content_idempotent_iff:
  "clean_content (clean_content s) = clean_content s \<longleftrightarrow>
     (\<forall>p \<in> set unwanted_phrases. \<not> sublist p (clean_content s))"
proof -
  let ?P1 = "''Here is the formatted blog post:''"
  let ?P2 = "''Let me know if you need any further assistance!''"
  define t where "t = clean_content s"
  define r1 where "r1 = replace_nonempty ?P1 [] t"
  define r2 where "r2 = replace_nonempty ?P2 [] r1"
  have ct: "clean_content t = py_strip r2"
    by (simp add: clean_content_unfold r1_def r2_def)
  have le2: "length r2 \<le> length r1" unfolding r2_def by (rule length_replace_nonempty_le)
  have le3: "length (py_strip r2) \<le> length r2" by (rule length_py_strip_le)
  have tt: "py_strip t = t" unfolding t_def clean_content_def by (rule py_strip_idem)
  show ?thesis
  proof (cases "sublist ?P1 t \<or> sublist ?P2 t")
    case False
    then have "r1 = t" by (simp add: r1_def replace_nonempty_absent)
    with False have "r2 = t" by (simp add: r2_def replace_nonempty_absent)
    with ct tt False show ?thesis by (simp add: t_def[symmetric] unwanted_phrases_def)
  next
    case True
    have "length r2 < length t"
    proof (cases "sublist ?P1 t")
      case True
      then have "length r1 < length t"
        unfolding r1_def by (intro length_replace_nonempty_less) simp_all
      with le2 show ?thesis by simp
    next
      case False
      then have eq: "r1 = t" by (simp add: r1_def replace_nonempty_absent)
      from False \<open>sublist ?P1 t \<or> sublist ?P2 t\<close> have "sublist ?P2 t" by simp
      then have "length (replace_nonempty ?P2 [] t) < length t"
        by (intro length_replace_nonempty_less) simp_all
      then show ?thesis by (simp add: r2_def eq)
    qed
    with le3 ct have "length (clean_content t) < length t" by simp
    then have "clean_content t \<noteq> t" by auto
    with True show ?thesis by (auto simp: t_def[symmetric] unwanted_phrases_def)
  qed
qed

theorem clean_content_idempotent_iff_witness:
  "clean_content (clean_content ''  Here is the formatted blog post: Hello  '')
     = clean_content ''  Here is the formatted blog post: Hello  ''"
proof -
  have "clean_content ''  Here is the formatted blog post: Hello  '' = ''Hello''"
    by (simp add: clean_content_unfold py_strip_def py_isspace_def whitespace_def)
  moreover have "\<forall>p \<in> set unwanted_phrases. \<not> sublist p ''Hello''"
    by (simp add: unwanted_phrases_def sublist_code)
  ultimately show ?thesis
    using clean_content_idempotent_iff [of "''  Here is the formatted blog post: Hello  ''"]
    by (simp only:)
qed

subsection \<open>Texts made of boilerplate only\<close>

text \<open>
  Claim C5: for every input that is a concatenation of denylisted phrases and whitespace,
  \<open>clean_content\<close> returns the empty string.
\<close>

theorem clean_content_only_boilerplate:
  assumes "list_all boilerplate_piece ps"
  shows "clean_content (concat ps) = []"
proof -
  let ?P1 = "''Here is the formatted blog post:''"
  let ?P2 = "''Let me know if you need any further assistance!''"
  let ?f1 = "\<lambda>p. if p = ?P1 then [] else p"
  let ?f2 = "\<lambda>p. if p = ?P2 then [] else p"
  have pieces: "\<forall>p \<in> set ps. p = ?P1 \<or> p = ?P2 \<or> list_all py_isspace p"
    using assms by (auto simp: list_all_iff boilerplate_piece_def unwanted_phrases_def)
  have sp: "\<And>p c. list_all py_isspace p \<Longrightarrow> \<not> py_isspace c \<Longrightarrow> c \<notin> set p"
    by (auto simp: list_all_iff)
  have "list_all (\<lambda>p. p = ?P1 \<or> hd ?P1 \<notin> set p) ps"
    unfolding list_all_iff
  proof
    fix p assume "p \<in> set ps"
    with pieces consider "p = ?P1" | "p = ?P2" | "list_all py_isspace p" by blast
    then show "p = ?P1 \<or> hd ?P1 \<notin> set p"
    proof cases
      case 1 then show ?thesis by simp
    next
      case 2 then show ?thesis by simp
    next
      case 3 then show ?thesis using sp[OF 3 not_space_H] by simp
    qed
  qed
  then have r1: "replace_nonempty ?P1 [] (concat ps) = concat (map ?f1 ps)"
    by (intro replace_nonempty_concat) simp_all
  have "list_all (\<lambda>p. p = ?P2 \<or> hd ?P2 \<notin> set p) (map ?f1 ps)"
    unfolding list_all_iff
  proof
    fix q assume "q \<in> set (map ?f1 ps)"
    then obtain p where p: "p \<in> set ps" and q: "q = ?f1 p" by auto
    from p pieces consider "p = ?P1" | "p = ?P2" | "p \<noteq> ?P1" "list_all py_isspace p" by blast
    then show "q = ?P2 \<or> hd ?P2 \<notin> set q"
    proof cases
      case 1 then show ?thesis using q by simp
    next
      case 2 then show ?thesis using q by simp
    next
      case 3 then show ?thesis using q sp[OF 3(2) not_space_L] by simp
    qed
  qed
  then have r2: "replace_nonempty ?P2 [] (concat (map ?f1 ps)) = concat (map ?f2 (map ?f1 ps))"
    by (intro replace_nonempty_concat) simp_all
  have "list_all py_isspace (concat (map ?f2 (map ?f1 ps)))"
    using pieces by (auto simp: list_all_iff)
  then have "py_strip (concat (map ?f2 (map ?f1 ps))) = []"
    by (rule py_strip_all_space)
  then show ?thesis
    by (simp only: clean_content_unfold r1 r2)
qed

theorem clean_content_only_boilerplate_witness:
  "clean_content
     (concat ['' '', ''Let me know if you need any further assistance!'', [CHR 0x09, CHR ''\<newline>''],
              ''Here is the formatted blog post:'', ''Here is the formatted blog post:'', [CHR 0xA0]])
   = []"
proof -
  have "list_all boilerplate_piece
          ['' '', ''Let me know if you need any further assistance!'', [CHR 0x09, CHR ''\<newline>''],
           ''Here is the formatted blog post:'', ''Here is the formatted blog post:'', [CHR 0xA0]]"
    by (simp add: boilerplate_piece_def unwanted_phrases_def py_isspace_def whitespace_def)
  then show ?thesis by (rule clean_content_only_boilerplate)
qed

section \<open>The endpoint\<close>

subsection \<open>The calls of each step, and the tag resolver as a map over the words\<close>

lemma process_with_llama3_calls:
  "snd (process_with_llama3 env text) = [Ollama_chat (llama3_prompt text)]"
  by (simp add: process_with_llama3_def Let_def)

lemma get_internal_links_calls: "snd (get_internal_links env) = [Get_posts]"
  by (simp add: get_internal_links_def case_prod_beta)

lemma fetch_tag_ids_loop_eq:
  "fetch_tag_ids_loop env tags (tag_ids, calls) =
     (tag_ids @ concat (map (\<lambda>tag. if fst (wp_tags env tag) = 200 then take 1 (snd (wp_tags env tag)) else []) tags),
      calls @ map Get_tags tags)"
proof (induction tags arbitrary: tag_ids calls)
  case Nil
  show ?case by simp
next
  case (Cons tag tags)
  show ?case
    by (cases "wp_tags env tag"; cases "snd (wp_tags env tag)") (simp_all add: Cons.IH)
qed

lemma fetch_tag_ids_eq:
  "fetch_tag_ids env tags =
     (concat (map (\<lambda>tag. if fst (wp_tags env tag) = 200 then take 1 (snd (wp_tags env tag)) else []) tags),
      map Get_tags tags)"
  by (simp add: fetch_tag_ids_def fetch_tag_ids_loop_eq)

text \<open>
  A request reaches the publish step when its content is not empty, the rewrite step
  gives a text that is not empty and the link enricher returns, that is, \<^verbatim>\<open>re.sub\<close>
  raises for no entry of the link index. The endpoint then makes the calls of every step
  in order, and answers by the status and the truth value of the body of the create-page
  response.
\<close>

lemma upload_blog_publish:
  assumes "blog_content \<noteq> []"
    and "fst (process_with_llama3 env (clean_content blog_content)) = Some formatted_content"
    and "formatted_content \<noteq> []"
    and "insert_internal_links env formatted_content (fst (get_internal_links env)) = Some final_content"
  shows "upload_blog env title blog_content =
     (let page = \<lparr>pd_title = title, pd_content = final_content, pd_status = ''publish'',
                  pd_metadesc = ''Learn more about '' @ title @ '' in this detailed blog post.'',
                  pd_tags = fst (fetch_tag_ids env (py_split title))\<rparr>
      in Some (if fst (wp_pages env page) = 201 \<and> truthy (snd (wp_pages env page))
               then Return (JObj [(''message'', JStr ''Blog post published successfully''),
                                  (''post'', snd (wp_pages env page))])
               else HTTPException 500 ''Failed to publish post'',
               [Ollama_chat (llama3_prompt (clean_content blog_content)), Get_posts] @
               map Get_tags (py_split title) @ [Post_page page]))"
proof -
  obtain calls1 where p: "process_with_llama3 env (clean_content blog_content) = (Some formatted_content, calls1)"
    and c1: "calls1 = [Ollama_chat (llama3_prompt (clean_content blog_content))]"
    using assms(2) process_with_llama3_calls[of env "clean_content blog_content"]
    by (cases "process_with_llama3 env (clean_content blog_content)") auto
  obtain links where g: "get_internal_links env = (links, [Get_posts])"
    using get_internal_links_calls[of env] by (cases "get_internal_links env") auto
  with assms(4) have i: "insert_internal_links env formatted_content links = Some final_content" by simp
  show ?thesis
    using assms(1,3)
    by (simp add: upload_blog_def p c1 g i Let_def publish_to_wordpress_def fetch_tag_ids_eq case_prod_beta)
qed

text \<open>
  The handler ends with the exception of \<^verbatim>\<open>re.sub\<close> in no other case. For a title
  without special character other than the dot and a link without backslash,
  \<^verbatim>\<open>re.sub\<close> returns.
\<close>

lemma upload_blog_raises_iff:
  "upload_blog env title blog_content = None \<longleftrightarrow>
     blog_content \<noteq> [] \<and>
     (\<exists>formatted_content.
        fst (process_with_llama3 env (clean_content blog_content)) = Some formatted_content \<and>
        formatted_content \<noteq> [] \<and>
        insert_internal_links env formatted_content (fst (get_internal_links env)) = None)"
  by (auto simp: upload_blog_def Let_def case_prod_beta split: option.splits if_splits)

lemma re_parse_no_backslash: "re_parse title = Some as \<Longrightarrow> CHR 0x5C \<notin> set title"
proof (induction title arbitrary: as)
  case Nil
  show ?case by simp
next
  case (Cons c cs)
  then show ?case
    by (auto simp: re_special_def split: if_splits)
qed

lemma re_sub_title_returns:
  assumes "re_parse title = Some as" and "CHR 0x5C \<notin> set url"
  shows "re_sub_title env title (anchor url title) content =
           Some (sub_scan as (anchor url title) 0 None content)"
proof -
  from assms(1) have "CHR 0x5C \<notin> set title" by (rule re_parse_no_backslash)
  with assms(2) have "CHR 0x5C \<notin> set (anchor url title)" by (simp add: anchor_def)
  with assms(1) show ?thesis by (simp add: re_sub_title_def)
qed

subsection \<open>The two early exits\<close>

text \<open>
  Claim C6: if \<open>blog_content\<close> is empty the endpoint answers 400 with the message
  \<^verbatim>\<open>No content provided\<close> and makes no call: none to the language model, none to the CMS.
\<close>

theorem empty_content_rejected:
  "upload_blog env title [] = Some (HTTPException 400 ''No content provided'', [])"
  by (simp add: upload_blog_def)

text \<open>
  Claim C7: if the rewrite step gives no usable content (no message in the response, or an
  empty text) the endpoint answers 500 with the message \<^verbatim>\<open>LLaMA 3 processing failed\<close>,
  and the call to the language model is the only call made: no posts read, no tag search,
  no page created.
\<close>

theorem rewrite_failure_stops_pipeline:
  assumes "blog_content \<noteq> []"
    and "fst (process_with_llama3 env (clean_content blog_content)) = None \<or>
         fst (process_with_llama3 env (clean_content blog_content)) = Some []"
  shows "upload_blog env title blog_content =
           Some (HTTPException 500 ''LLaMA 3 processing failed'',
                 [Ollama_chat (llama3_prompt (clean_content blog_content))])"
proof -
  obtain formatted where p: "process_with_llama3 env (clean_content blog_content) =
      (formatted, [Ollama_chat (llama3_prompt (clean_content blog_content))])"
    using process_with_llama3_calls[of env "clean_content blog_content"]
    by (cases "process_with_llama3 env (clean_content blog_content)") auto
  with assms(2) have "formatted = None \<or> formatted = Some []" by simp
  then show ?thesis
    using assms(1) by (auto simp: upload_blog_def p)
qed

theorem rewrite_failure_stops_pipeline_witness:
  "upload_blog silent_llm_services ''Go Rust'' ''x'' =
     Some (HTTPException 500 ''LLaMA 3 processing failed'', [Ollama_chat (llama3_prompt (clean_content ''x''))]) \<and>
   upload_blog empty_llm_services ''Go Rust'' ''x'' =
     Some (HTTPException 500 ''LLaMA 3 processing failed'', [Ollama_chat (llama3_prompt (clean_content ''x''))])"
proof -
  have n: "(''x'' :: string) \<noteq> []" by simp
  have "fst (process_with_llama3 silent_llm_services (clean_content ''x'')) = None"
    by (simp add: process_with_llama3_def silent_llm_services_def plain_services_def)
  moreover have "fst (process_with_llama3 empty_llm_services (clean_content ''x'')) = Some []"
    by (simp add: process_with_llama3_def empty_llm_services_def plain_services_def py_replace_def)
  ultimately show ?thesis
    using rewrite_failure_stops_pipeline [OF n, of silent_llm_services "''Go Rust''"]
      rewrite_failure_stops_pipeline [OF n, of empty_llm_services "''Go Rust''"]
    by simp
qed

subsection \<open>The normalizer\<close>

lemma plain_rewrite_pages:
  "fst (process_with_llama3 (plain_services\<lparr>wp_pages := pg\<rparr>) text) = Some ''<p>Hello  world</p>\<newline>''"
  by (simp add: process_with_llama3_def plain_services_def py_replace_def)

text \<open>
  Claim C1 says that the content passed to link enrichment, and so the published content,
  is the normalizer's output for the rewritten text. The code computes that output and
  passes the rewritten text itself: here the rewritten text is the paragraph with two
  spaces and a line feed, its normalized form has single spaces and no line feed, and the
  page created holds the rewritten text.
\<close>

theorem normalizer_output_not_published:
  "fst (process_with_llama3 plain_services (clean_content ''x'')) = Some ''<p>Hello  world</p>\<newline>'' \<and>
   spell_check plain_services ''<p>Hello  world</p>\<newline>'' = ''<p>Hello world</p>'' \<and>
   upload_blog plain_services ''Go Rust'' ''x'' =
     Some (Return (JObj [(''message'', JStr ''Blog post published successfully''),
                         (''post'', JObj [(''id'', JNum 7)])]),
           [Ollama_chat (llama3_prompt ''x''), Get_posts, Get_tags ''Go'', Get_tags ''Rust'',
            Post_page \<lparr>pd_title = ''Go Rust'', pd_content = ''<p>Hello  world</p>\<newline>'',
                       pd_status = ''publish'',
                       pd_metadesc = ''Learn more about Go Rust in this detailed blog post.'',
                       pd_tags = []\<rparr>])"
proof -
  have r: "fst (process_with_llama3 plain_services (clean_content ''x'')) = Some ''<p>Hello  world</p>\<newline>''"
    by (simp add: process_with_llama3_def plain_services_def py_replace_def)
  have s: "spell_check plain_services ''<p>Hello  world</p>\<newline>'' = ''<p>Hello world</p>''"
    by (simp add: spell_check_def plain_services_def py_split_def py_isspace_def whitespace_def)
  have l: "insert_internal_links plain_services ''<p>Hello  world</p>\<newline>'' (fst (get_internal_links plain_services)) = Some ''<p>Hello  world</p>\<newline>''"
    by (simp add: get_internal_links_def plain_services_def)
  have w: "py_split ''Go Rust'' = [''Go'', ''Rust'']"
    by (simp add: py_split_def py_isspace_def whitespace_def)
  have c: "clean_content ''x'' = ''x''"
    by (simp add: clean_content_unfold py_strip_def py_isspace_def whitespace_def)
  have u: "upload_blog plain_services ''Go Rust'' ''x'' =
     Some (Return (JObj [(''message'', JStr ''Blog post published successfully''),
                         (''post'', JObj [(''id'', JNum 7)])]),
           [Ollama_chat (llama3_prompt ''x''), Get_posts, Get_tags ''Go'', Get_tags ''Rust'',
            Post_page \<lparr>pd_title = ''Go Rust'', pd_content = ''<p>Hello  world</p>\<newline>'',
                       pd_status = ''publish'',
                       pd_metadesc = ''Learn more about Go Rust in this detailed blog post.'',
                       pd_tags = []\<rparr>])"
    by (subst upload_blog_publish [OF _ r _ l]) (simp_all add: w c fetch_tag_ids_eq Let_def plain_services_def)
  from r s u show ?thesis by (simp only: simp_thms)
qed

text \<open>The answer and the calls of the endpoint do not depend on the tokenizer at all.\<close>

lemma process_with_llama3_tokenizer:
  "process_with_llama3 (env\<lparr>word_tokenize := tok\<rparr>) text = process_with_llama3 env text"
  by (simp add: process_with_llama3_def)

lemma get_internal_links_tokenizer:
  "get_internal_links (env\<lparr>word_tokenize := tok\<rparr>) = get_internal_links env"
  by (simp add: get_internal_links_def)

lemma fetch_tag_ids_tokenizer:
  "fetch_tag_ids (env\<lparr>word_tokenize := tok\<rparr>) tags = fetch_tag_ids env tags"
  by (simp add: fetch_tag_ids_eq cong: if_cong)

lemma publish_to_wordpress_tokenizer:
  "publish_to_wordpress (env\<lparr>word_tokenize := tok\<rparr>) t c m ids = publish_to_wordpress env t c m ids"
  by (simp add: publish_to_wordpress_def)

lemma re_sub_title_tokenizer:
  "re_sub_title (env\<lparr>word_tokenize := tok\<rparr>) title repl content = re_sub_title env title repl content"
  by (simp add: re_sub_title_def split: option.splits)

lemma insert_internal_links_tokenizer:
  "insert_internal_links (env\<lparr>word_tokenize := tok\<rparr>) content links =
   insert_internal_links env content links"
proof (induction links arbitrary: content)
  case Nil
  show ?case by simp
next
  case (Cons entry links)
  obtain title url where e: "entry = (title, url)" by (cases entry)
  show ?case
    by (cases "re_sub_title env title (anchor url title) content")
       (simp_all add: e re_sub_title_tokenizer Cons.IH)
qed

lemma upload_blog_ignores_tokenizer:
  "upload_blog (env\<lparr>word_tokenize := tok\<rparr>) title blog_content = upload_blog env title blog_content"
  by (simp only: upload_blog_def process_with_llama3_tokenizer get_internal_links_tokenizer
        insert_internal_links_tokenizer fetch_tag_ids_tokenizer publish_to_wordpress_tokenizer Let_def)

subsection \<open>Link enrichment\<close>

text \<open>The example of claim C2 holds on the code.\<close>

lemma insert_internal_links_intro_example:
  "insert_internal_links env ''Read the Intro first'' [(''Intro'', ''https://x/intro'')] =
     Some (''Read the <a href='' @ [CHR 0x22] @ ''https://x/intro'' @ [CHR 0x22] @ ''>Intro</a> first'')"
  by (simp add: re_sub_title_def re_special_def match_here_def word_boundary_def re_word_def
        py_lower_def anchor_def)

text \<open>
  Claim C2 says that link enrichment wraps the whole-word, case-insensitive occurrences of
  the literal title text. The code reads the title as a pattern: the content below holds
  no occurrence of \<^verbatim>\<open>Node.js\<close> in any case, and the dot of the title matches the
  \<^verbatim>\<open>X\<close>, so that \<^verbatim>\<open>nodeXjs\<close> is replaced by an anchor.
\<close>

theorem title_read_as_pattern:
  "\<not> sublist (map py_lower ''Node.js'') (map py_lower ''I use nodeXjs daily'') \<and>
   insert_internal_links env ''I use nodeXjs daily'' [(''Node.js'', ''https://x/node'')] =
     Some (''I use <a href='' @ [CHR 0x22] @ ''https://x/node'' @ [CHR 0x22] @ ''>Node.js</a> daily'')"
  by code_simp

subsection \<open>Tag resolution\<close>

text \<open>
  Claim C8: tag resolution searches each whitespace-split word of the title in title
  order, and the identifiers are, in that order, the first result of each search that
  answers 200 with at least one result; a word with no result adds nothing. For the title
  \<^verbatim>\<open>Go Rust\<close> where only \<^verbatim>\<open>Go\<close> resolves, to 5, the result is \<open>[5]\<close>; a word that
  stands twice in the title gives its identifier twice.
\<close>

theorem fetch_tag_ids_of_title:
  "fetch_tag_ids env (py_split title) =
     (concat (map (\<lambda>word. if fst (wp_tags env word) = 200 then take 1 (snd (wp_tags env word)) else [])
                  (py_split title)),
      map Get_tags (py_split title)) \<and>
   (wp_tags env ''Go'' = (200, 5 # others) \<and>
    (fst (wp_tags env ''Rust'') \<noteq> 200 \<or> snd (wp_tags env ''Rust'') = []) \<longrightarrow>
      fst (fetch_tag_ids env (py_split ''Go Rust'')) = [5]) \<and>
   (wp_tags env ''Go'' = (200, 5 # others) \<longrightarrow>
      fst (fetch_tag_ids env (py_split ''Go Go'')) = [5, 5])"
proof -
  have w1: "py_split ''Go Rust'' = [''Go'', ''Rust'']"
    by (simp add: py_split_def py_isspace_def whitespace_def)
  have w2: "py_split ''Go Go'' = [''Go'', ''Go'']"
    by (simp add: py_split_def py_isspace_def whitespace_def)
  show ?thesis
    by (auto simp: fetch_tag_ids_eq w1 w2)
qed

theorem fetch_tag_ids_of_title_witness:
  "fetch_tag_ids go_services (py_split ''Go Rust'') = ([5], [Get_tags ''Go'', Get_tags ''Rust'']) \<and>
   fst (fetch_tag_ids go_services (py_split ''Go Go'')) = [5, 5]"
proof -
  have g: "wp_tags go_services ''Go'' = (200, 5 # [9])"
    by (simp add: go_services_def plain_services_def)
  have r: "wp_tags go_services ''Rust'' = (200, [])"
    by (simp add: go_services_def plain_services_def)
  have w1: "py_split ''Go Rust'' = [''Go'', ''Rust'']"
    by (simp add: py_split_def py_isspace_def whitespace_def)
  from fetch_tag_ids_of_title [of go_services "''Go Rust''" "[9]"] g r
  show ?thesis by (simp add: w1)
qed

subsection \<open>The publish step\<close>

lemma words_go_rust: "py_split ''Go Rust'' = [''Go'', ''Rust'']"
  by (simp add: py_split_def py_isspace_def whitespace_def)

lemma clean_x: "clean_content ''x'' = ''x''"
  by (simp add: clean_content_unfold py_strip_def py_isspace_def whitespace_def)

text \<open>
  The link index of the CMS with two posts: the library is asked for the first title and
  leaves the text as it is, and the second title is wrapped.
\<close>

lemma indexed_enrichment:
  "insert_internal_links indexed_services ''<p>Hello  world</p>\<newline>''
     (fst (get_internal_links indexed_services)) =
     Some (''<p><a href='' @ [CHR 0x22] @ ''https://x/hello'' @ [CHR 0x22] @ ''>Hello</a>  world</p>\<newline>'')"
  by code_simp

lemma failing_tags_enrichment:
  "insert_internal_links failing_tags_services ''<p>Hello  world</p>\<newline>''
     (fst (get_internal_links failing_tags_services)) =
     Some (''<p><a href='' @ [CHR 0x22] @ ''https://x/hello'' @ [CHR 0x22] @ ''>Hello</a>  world</p>\<newline>'')"
  by code_simp

lemma indexed_empty_body_enrichment:
  "insert_internal_links indexed_empty_body_services ''<p>Hello  world</p>\<newline>''
     (fst (get_internal_links indexed_empty_body_services)) =
     Some (''<p><a href='' @ [CHR 0x22] @ ''https://x/hello'' @ [CHR 0x22] @ ''>Hello</a>  world</p>\<newline>'')"
  by code_simp

lemma indexed_rejecting_enrichment:
  "insert_internal_links indexed_rejecting_services ''<p>Hello  world</p>\<newline>''
     (fst (get_internal_links indexed_rejecting_services)) =
     Some (''<p><a href='' @ [CHR 0x22] @ ''https://x/hello'' @ [CHR 0x22] @ ''>Hello</a>  world</p>\<newline>'')"
  by code_simp

text \<open>
  Claim C3, as stated: for a request that reaches the publish step, a create-page status
  other than 201 gives 500 with the message \<^verbatim>\<open>Failed to publish post\<close>, and the status
  201 gives 200 with the JSON response of the CMS in the field \<^verbatim>\<open>post\<close>. The second
  half fails when the CMS answers 201 with an empty object.
\<close>

theorem created_page_with_empty_body_is_reported_failed:
  "fst (wp_pages empty_body_services
          \<lparr>pd_title = ''Go Rust'', pd_content = ''<p>Hello  world</p>\<newline>'', pd_status = ''publish'',
             pd_metadesc = ''Learn more about Go Rust in this detailed blog post.'', pd_tags = []\<rparr>) = 201 \<and>
   upload_blog empty_body_services ''Go Rust'' ''x'' =
     Some (HTTPException 500 ''Failed to publish post'',
           [Ollama_chat (llama3_prompt ''x''), Get_posts, Get_tags ''Go'', Get_tags ''Rust'',
            Post_page \<lparr>pd_title = ''Go Rust'', pd_content = ''<p>Hello  world</p>\<newline>'',
                       pd_status = ''publish'',
                       pd_metadesc = ''Learn more about Go Rust in this detailed blog post.'',
                       pd_tags = []\<rparr>])"
proof -
  have r: "fst (process_with_llama3 empty_body_services (clean_content ''x'')) = Some ''<p>Hello  world</p>\<newline>''"
    unfolding empty_body_services_def by (rule plain_rewrite_pages)
  have l: "insert_internal_links empty_body_services ''<p>Hello  world</p>\<newline>'' (fst (get_internal_links empty_body_services)) =
             Some ''<p>Hello  world</p>\<newline>''"
    by (simp add: get_internal_links_def empty_body_services_def plain_services_def)
  show ?thesis
    by (subst upload_blog_publish [OF _ r _ l])
       (simp_all add: words_go_rust clean_x fetch_tag_ids_eq Let_def empty_body_services_def plain_services_def)
qed

text \<open>
  Claim C3, amended: for every request that reaches the publish step, whatever the link
  index, a create-page status other than 201 gives 500 with the message
  \<^verbatim>\<open>Failed to publish post\<close>; the status 201 with a body that Python counts as true
  gives 200 with that body in the field \<^verbatim>\<open>post\<close>.
\<close>

theorem publish_outcome:
  assumes "blog_content \<noteq> []"
    and "fst (process_with_llama3 env (clean_content blog_content)) = Some formatted_content"
    and "formatted_content \<noteq> []"
    and "insert_internal_links env formatted_content (fst (get_internal_links env)) = Some final_content"
    and "page = \<lparr>pd_title = title, pd_content = final_content, pd_status = ''publish'',
                  pd_metadesc = ''Learn more about '' @ title @ '' in this detailed blog post.'',
                  pd_tags = fst (fetch_tag_ids env (py_split title))\<rparr>"
  shows "(fst (wp_pages env page) \<noteq> 201 \<longrightarrow>
            map_option fst (upload_blog env title blog_content) =
              Some (HTTPException 500 ''Failed to publish post'')) \<and>
         (fst (wp_pages env page) = 201 \<and> truthy (snd (wp_pages env page)) \<longrightarrow>
            map_option fst (upload_blog env title blog_content) =
              Some (Return (JObj [(''message'', JStr ''Blog post published successfully''),
                                  (''post'', snd (wp_pages env page))])) \<and>
            map_option (status_of \<circ> fst) (upload_blog env title blog_content) = Some 200)"
  using assms(5) by (simp add: upload_blog_publish [OF assms(1-4)] Let_def)

theorem publish_outcome_witness:
  "map_option fst (upload_blog indexed_rejecting_services ''Go Rust'' ''x'') =
     Some (HTTPException 500 ''Failed to publish post'') \<and>
   map_option fst (upload_blog indexed_services ''Go Rust'' ''x'') =
     Some (Return (JObj [(''message'', JStr ''Blog post published successfully''),
                         (''post'', JObj [(''id'', JNum 7)])])) \<and>
   map_option (status_of \<circ> fst) (upload_blog indexed_services ''Go Rust'' ''x'') = Some 200"
proof -
  let ?linked = "''<p><a href='' @ [CHR 0x22] @ ''https://x/hello'' @ [CHR 0x22] @ ''>Hello</a>  world</p>\<newline>''"
  let ?page = "\<lparr>pd_title = ''Go Rust'', pd_content = ?linked, pd_status = ''publish'',
                 pd_metadesc = ''Learn more about '' @ ''Go Rust'' @ '' in this detailed blog post.'',
                 pd_tags = []\<rparr>"
  have n: "(''x'' :: string) \<noteq> []" and f: "''<p>Hello  world</p>\<newline>'' \<noteq> []" by simp_all
  have r1: "fst (process_with_llama3 indexed_rejecting_services (clean_content ''x'')) =
              Some ''<p>Hello  world</p>\<newline>''"
    by (simp add: process_with_llama3_def indexed_rejecting_services_def indexed_services_def
          plain_services_def py_replace_def)
  have p1: "?page = \<lparr>pd_title = ''Go Rust'', pd_content = ?linked, pd_status = ''publish'',
                 pd_metadesc = ''Learn more about '' @ ''Go Rust'' @ '' in this detailed blog post.'',
                 pd_tags = fst (fetch_tag_ids indexed_rejecting_services (py_split ''Go Rust''))\<rparr>"
    by (simp add: fetch_tag_ids_eq words_go_rust indexed_rejecting_services_def indexed_services_def
          plain_services_def)
  have s1: "fst (wp_pages indexed_rejecting_services ?page) \<noteq> 201"
    by (simp add: indexed_rejecting_services_def indexed_services_def plain_services_def)
  have r2: "fst (process_with_llama3 indexed_services (clean_content ''x'')) =
              Some ''<p>Hello  world</p>\<newline>''"
    by (simp add: process_with_llama3_def indexed_services_def plain_services_def py_replace_def)
  have p2: "?page = \<lparr>pd_title = ''Go Rust'', pd_content = ?linked, pd_status = ''publish'',
                 pd_metadesc = ''Learn more about '' @ ''Go Rust'' @ '' in this detailed blog post.'',
                 pd_tags = fst (fetch_tag_ids indexed_services (py_split ''Go Rust''))\<rparr>"
    by (simp add: fetch_tag_ids_eq words_go_rust indexed_services_def plain_services_def)
  have s2: "wp_pages indexed_services ?page = (201, JObj [(''id'', JNum 7)])"
    by (simp add: indexed_services_def plain_services_def)
  from publish_outcome [OF n r1 f indexed_rejecting_enrichment p1] s1
  have a: "map_option fst (upload_blog indexed_rejecting_services ''Go Rust'' ''x'') =
             Some (HTTPException 500 ''Failed to publish post'')"
    by blast
  from publish_outcome [OF n r2 f indexed_enrichment p2] s2
  have b: "map_option fst (upload_blog indexed_services ''Go Rust'' ''x'') =
     Some (Return (JObj [(''message'', JStr ''Blog post published successfully''),
                         (''post'', JObj [(''id'', JNum 7)])])) \<and>
     map_option (status_of \<circ> fst) (upload_blog indexed_services ''Go Rust'' ''x'') = Some 200"
    by simp
  from a b show ?thesis by (simp only: simp_thms)
qed

text \<open>
  Claim C10: for every request that reaches the publish step, whatever the link index, if
  the create-page call answers 201 with a body that Python counts as false, such as the
  empty object, the endpoint answers 500 with the message \<^verbatim>\<open>Failed to publish post\<close>,
  after the page was created.
\<close>

theorem created_page_with_falsy_body:
  assumes "blog_content \<noteq> []"
    and "fst (process_with_llama3 env (clean_content blog_content)) = Some formatted_content"
    and "formatted_content \<noteq> []"
    and "insert_internal_links env formatted_content (fst (get_internal_links env)) = Some final_content"
    and "page = \<lparr>pd_title = title, pd_content = final_content, pd_status = ''publish'',
                  pd_metadesc = ''Learn more about '' @ title @ '' in this detailed blog post.'',
                  pd_tags = fst (fetch_tag_ids env (py_split title))\<rparr>"
    and "fst (wp_pages env page) = 201"
    and "\<not> truthy (snd (wp_pages env page))"
  shows "upload_blog env title blog_content =
           Some (HTTPException 500 ''Failed to publish post'',
                 [Ollama_chat (llama3_prompt (clean_content blog_content)), Get_posts] @
                 map Get_tags (py_split title) @ [Post_page page])"
  using assms(5-7) by (simp add: upload_blog_publish [OF assms(1-4)] Let_def)

theorem created_page_with_falsy_body_witness:
  "\<not> truthy (JObj []) \<and>
   upload_blog indexed_empty_body_services ''Go Rust'' ''x'' =
     Some (HTTPException 500 ''Failed to publish post'',
           [Ollama_chat (llama3_prompt (clean_content ''x'')), Get_posts] @ map Get_tags (py_split ''Go Rust'') @
           [Post_page \<lparr>pd_title = ''Go Rust'',
                       pd_content = ''<p><a href='' @ [CHR 0x22] @ ''https://x/hello'' @ [CHR 0x22] @
                                    ''>Hello</a>  world</p>\<newline>'',
                       pd_status = ''publish'',
                       pd_metadesc = ''Learn more about '' @ ''Go Rust'' @ '' in this detailed blog post.'',
                       pd_tags = []\<rparr>])"
proof -
  let ?linked = "''<p><a href='' @ [CHR 0x22] @ ''https://x/hello'' @ [CHR 0x22] @ ''>Hello</a>  world</p>\<newline>''"
  let ?page = "\<lparr>pd_title = ''Go Rust'', pd_content = ?linked, pd_status = ''publish'',
                 pd_metadesc = ''Learn more about '' @ ''Go Rust'' @ '' in this detailed blog post.'',
                 pd_tags = []\<rparr>"
  have n: "(''x'' :: string) \<noteq> []" and f: "''<p>Hello  world</p>\<newline>'' \<noteq> []" by simp_all
  have r: "fst (process_with_llama3 indexed_empty_body_services (clean_content ''x'')) =
             Some ''<p>Hello  world</p>\<newline>''"
    by (simp add: process_with_llama3_def indexed_empty_body_services_def indexed_services_def
          plain_services_def py_replace_def)
  have p: "?page = \<lparr>pd_title = ''Go Rust'', pd_content = ?linked, pd_status = ''publish'',
                 pd_metadesc = ''Learn more about '' @ ''Go Rust'' @ '' in this detailed blog post.'',
                 pd_tags = fst (fetch_tag_ids indexed_empty_body_services (py_split ''Go Rust''))\<rparr>"
    by (simp add: fetch_tag_ids_eq words_go_rust indexed_empty_body_services_def indexed_services_def
          plain_services_def)
  have s: "fst (wp_pages indexed_empty_body_services ?page) = 201"
    by (simp add: indexed_empty_body_services_def indexed_services_def plain_services_def)
  have t: "\<not> truthy (snd (wp_pages indexed_empty_body_services ?page))"
    by (simp add: indexed_empty_body_services_def indexed_services_def plain_services_def)
  have "\<not> truthy (JObj [])" by simp
  with created_page_with_falsy_body [OF n r f indexed_empty_body_enrichment p s t]
  show ?thesis by (simp only: simp_thms)
qed

subsection \<open>Best-effort enrichment\<close>

lemma get_internal_links_failed:
  "fst (wp_posts env) \<noteq> 200 \<Longrightarrow> get_internal_links env = ([], [Get_posts])"
  by (simp add: get_internal_links_def case_prod_beta)

lemma fetch_tag_ids_failed_word:
  "fst (wp_tags env word) \<noteq> 200 \<Longrightarrow>
   fst (fetch_tag_ids env (before @ word # after)) = fst (fetch_tag_ids env (before @ after))"
  by (simp add: fetch_tag_ids_eq)

text \<open>
  Claim C9: for every request whose rewrite step succeeded, if the posts read answers a
  status other than 200 the link index is empty and the page is created with the
  rewritten text; a word whose tag search answers a status other than 200 adds no
  identifier, the identifiers being those of the title without that word; and whatever
  the link index holds and the tag searches answer, the page is created once the link
  enricher has returned, that is, unless \<^verbatim>\<open>re.sub\<close> raised.
\<close>

theorem enrichment_failures_never_abort:
  assumes "blog_content \<noteq> []"
    and "fst (process_with_llama3 env (clean_content blog_content)) = Some formatted_content"
    and "formatted_content \<noteq> []"
  shows "(fst (wp_posts env) \<noteq> 200 \<longrightarrow>
            fst (get_internal_links env) = [] \<and>
            map_option snd (upload_blog env title blog_content) =
              Some ([Ollama_chat (llama3_prompt (clean_content blog_content)), Get_posts] @
                    map Get_tags (py_split title) @
                    [Post_page \<lparr>pd_title = title, pd_content = formatted_content, pd_status = ''publish'',
                                pd_metadesc = ''Learn more about '' @ title @ '' in this detailed blog post.'',
                                pd_tags = fst (fetch_tag_ids env (py_split title))\<rparr>])) \<and>
         (\<forall>before word after. fst (wp_tags env word) \<noteq> 200 \<longrightarrow>
            fst (fetch_tag_ids env (before @ word # after)) = fst (fetch_tag_ids env (before @ after))) \<and>
         (\<forall>final_content.
            insert_internal_links env formatted_content (fst (get_internal_links env)) = Some final_content \<longrightarrow>
            map_option snd (upload_blog env title blog_content) =
              Some ([Ollama_chat (llama3_prompt (clean_content blog_content)), Get_posts] @
                    map Get_tags (py_split title) @
                    [Post_page \<lparr>pd_title = title, pd_content = final_content, pd_status = ''publish'',
                                pd_metadesc = ''Learn more about '' @ title @ '' in this detailed blog post.'',
                                pd_tags = fst (fetch_tag_ids env (py_split title))\<rparr>]))"
proof (intro conjI impI allI)
  assume "fst (wp_posts env) \<noteq> 200"
  then have g: "get_internal_links env = ([], [Get_posts])" by (rule get_internal_links_failed)
  then show "fst (get_internal_links env) = []" by simp
  from g have "insert_internal_links env formatted_content (fst (get_internal_links env)) = Some formatted_content"
    by simp
  from upload_blog_publish [OF assms this]
  show "map_option snd (upload_blog env title blog_content) =
              Some ([Ollama_chat (llama3_prompt (clean_content blog_content)), Get_posts] @
                    map Get_tags (py_split title) @
                    [Post_page \<lparr>pd_title = title, pd_content = formatted_content, pd_status = ''publish'',
                                pd_metadesc = ''Learn more about '' @ title @ '' in this detailed blog post.'',
                                pd_tags = fst (fetch_tag_ids env (py_split title))\<rparr>])"
    by (simp add: Let_def)
next
  fix before word after
  assume "fst (wp_tags env word) \<noteq> 200"
  then show "fst (fetch_tag_ids env (before @ word # after)) = fst (fetch_tag_ids env (before @ after))"
    by (rule fetch_tag_ids_failed_word)
next
  fix final_content
  assume "insert_internal_links env formatted_content (fst (get_internal_links env)) = Some final_content"
  from upload_blog_publish [OF assms this]
  show "map_option snd (upload_blog env title blog_content) =
              Some ([Ollama_chat (llama3_prompt (clean_content blog_content)), Get_posts] @
                    map Get_tags (py_split title) @
                    [Post_page \<lparr>pd_title = title, pd_content = final_content, pd_status = ''publish'',
                                pd_metadesc = ''Learn more about '' @ title @ '' in this detailed blog post.'',
                                pd_tags = fst (fetch_tag_ids env (py_split title))\<rparr>])"
    by (simp add: Let_def)
qed

theorem enrichment_failures_never_abort_witness:
  "fst (wp_posts failing_reads_services) = 500 \<and>
   fst (wp_tags failing_reads_services ''Rust'') = 503 \<and>
   fst (get_internal_links failing_reads_services) = [] \<and>
   fst (fetch_tag_ids failing_reads_services ([''Go''] @ ''Rust'' # [])) = [5] \<and>
   map_option snd (upload_blog failing_reads_services ''Go Rust'' ''x'') =
     Some ([Ollama_chat (llama3_prompt (clean_content ''x'')), Get_posts] @ map Get_tags (py_split ''Go Rust'') @
           [Post_page \<lparr>pd_title = ''Go Rust'', pd_content = ''<p>Hello  world</p>\<newline>'',
                       pd_status = ''publish'',
                       pd_metadesc = ''Learn more about '' @ ''Go Rust'' @ '' in this detailed blog post.'',
                       pd_tags = [5]\<rparr>]) \<and>
   fst (wp_posts failing_tags_services) = 200 \<and>
   fst (wp_tags failing_tags_services ''Rust'') = 503 \<and>
   map_option snd (upload_blog failing_tags_services ''Go Rust'' ''x'') =
     Some ([Ollama_chat (llama3_prompt (clean_content ''x'')), Get_posts] @ map Get_tags (py_split ''Go Rust'') @
           [Post_page \<lparr>pd_title = ''Go Rust'',
                       pd_content = ''<p><a href='' @ [CHR 0x22] @ ''https://x/hello'' @ [CHR 0x22] @
                                    ''>Hello</a>  world</p>\<newline>'',
                       pd_status = ''publish'',
                       pd_metadesc = ''Learn more about '' @ ''Go Rust'' @ '' in this detailed blog post.'',
                       pd_tags = [5]\<rparr>])"
proof -
  have n: "(''x'' :: string) \<noteq> []" and f: "''<p>Hello  world</p>\<newline>'' \<noteq> []" by simp_all
  have r: "fst (process_with_llama3 failing_reads_services (clean_content ''x'')) = Some ''<p>Hello  world</p>\<newline>''"
    by (simp add: process_with_llama3_def failing_reads_services_def plain_services_def py_replace_def)
  have p: "fst (wp_posts failing_reads_services) = 500"
    by (simp add: failing_reads_services_def plain_services_def)
  have t: "fst (wp_tags failing_reads_services ''Rust'') = 503"
    by (simp add: failing_reads_services_def plain_services_def)
  have g: "fst (fetch_tag_ids failing_reads_services [''Go'']) = [5]"
    by (simp add: fetch_tag_ids_eq failing_reads_services_def plain_services_def)
  note inst = enrichment_failures_never_abort [OF n r f, of "''Go Rust''"]
  from inst p have a: "fst (get_internal_links failing_reads_services) = []" by simp
  from inst have q: "\<And>before word after. fst (wp_tags failing_reads_services word) \<noteq> 200 \<Longrightarrow>
      fst (fetch_tag_ids failing_reads_services (before @ word # after)) =
      fst (fetch_tag_ids failing_reads_services (before @ after))"
    by blast
  from t have "fst (fetch_tag_ids failing_reads_services ([''Go''] @ ''Rust'' # [])) =
               fst (fetch_tag_ids failing_reads_services ([''Go''] @ []))"
    by (intro q) simp
  with g have b: "fst (fetch_tag_ids failing_reads_services ([''Go''] @ ''Rust'' # [])) = [5]" by simp
  with inst p have c: "map_option snd (upload_blog failing_reads_services ''Go Rust'' ''x'') =
     Some ([Ollama_chat (llama3_prompt (clean_content ''x'')), Get_posts] @ map Get_tags (py_split ''Go Rust'') @
           [Post_page \<lparr>pd_title = ''Go Rust'', pd_content = ''<p>Hello  world</p>\<newline>'',
                       pd_status = ''publish'',
                       pd_metadesc = ''Learn more about '' @ ''Go Rust'' @ '' in this detailed blog post.'',
                       pd_tags = [5]\<rparr>])"
    by (simp add: words_go_rust)
  have r': "fst (process_with_llama3 failing_tags_services (clean_content ''x'')) = Some ''<p>Hello  world</p>\<newline>''"
    by (simp add: process_with_llama3_def failing_tags_services_def indexed_services_def
          plain_services_def py_replace_def)
  have p': "fst (wp_posts failing_tags_services) = 200"
    by (simp add: failing_tags_services_def indexed_services_def plain_services_def)
  have t': "fst (wp_tags failing_tags_services ''Rust'') = 503"
    by (simp add: failing_tags_services_def indexed_services_def plain_services_def)
  have g': "fst (fetch_tag_ids failing_tags_services (py_split ''Go Rust'')) = [5]"
    by (simp add: fetch_tag_ids_eq words_go_rust failing_tags_services_def indexed_services_def
          plain_services_def)
  from enrichment_failures_never_abort [OF n r' f, of "''Go Rust''"]
  have "\<forall>final_content.
          insert_internal_links failing_tags_services ''<p>Hello  world</p>\<newline>''
            (fst (get_internal_links failing_tags_services)) = Some final_content \<longrightarrow>
          map_option snd (upload_blog failing_tags_services ''Go Rust'' ''x'') =
            Some ([Ollama_chat (llama3_prompt (clean_content ''x'')), Get_posts] @
                  map Get_tags (py_split ''Go Rust'') @
                  [Post_page \<lparr>pd_title = ''Go Rust'', pd_content = final_content, pd_status = ''publish'',
                              pd_metadesc = ''Learn more about '' @ ''Go Rust'' @ '' in this detailed blog post.'',
                              pd_tags = fst (fetch_tag_ids failing_tags_services (py_split ''Go Rust''))\<rparr>])"
    by blast
  with failing_tags_enrichment g'
  have d: "map_option snd (upload_blog failing_tags_services ''Go Rust'' ''x'') =
     Some ([Ollama_chat (llama3_prompt (clean_content ''x'')), Get_posts] @ map Get_tags (py_split ''Go Rust'') @
           [Post_page \<lparr>pd_title = ''Go Rust'',
                       pd_content = ''<p><a href='' @ [CHR 0x22] @ ''https://x/hello'' @ [CHR 0x22] @
                                    ''>Hello</a>  world</p>\<newline>'',
                       pd_status = ''publish'',
                       pd_metadesc = ''Learn more about '' @ ''Go Rust'' @ '' in this detailed blog post.'',
                       pd_tags = [5]\<rparr>])"
    by simp
  from p t a b c p' t' d show ?thesis by (simp only: simp_thms)
qed

end
